theory Spec2Isabelle
  imports Main "HOL-Library.Sublist"
begin

section \<open>The transaction manager of indexer-common (transactions.ts)\<close>

text \<open>
  A shallow embedding of \<^verbatim>\<open>TransactionManager\<close> from
  \<^verbatim>\<open>packages/indexer-common/src/transactions.ts\<close>.

  \<^item> A \<^verbatim>\<open>BigNumber\<close> is an \<open>int\<close>; a field that may be \<^verbatim>\<open>null\<close> or
    \<^verbatim>\<open>undefined\<close> is an \<open>option\<close>. A \<^verbatim>\<open>BigNumber\<close> is an object, so it is truthy
    whatever its value: the truthiness tests of the source are tests for \<open>Some\<close>.
  \<^item> A thrown value is a \<open>js_error\<close>; a call that may throw returns \<open>js_error + 'a\<close>.
  \<^item> The chain client, the wallet and the two callbacks are the environment. Their answers are
    arguments of the model: a list of answers to \<^verbatim>\<open>getFeeData\<close>, and one \<open>Iteration\<close> for
    every pass through the submission loop. A run that uses up the answers it was given is
    \<open>Running\<close>: the code would still be waiting for the network.
  \<^item> Every call on the environment and every \<^verbatim>\<open>delay\<close> is recorded, in order, in a list
    of \<open>event\<close>s. Logging is left out.
\<close>

subsection \<open>Values and errors\<close>

datatype TransactionType = ZERO | TWO

text \<open>The codes of \<^verbatim>\<open>IndexerErrorCode\<close> that this file names; \<open>IEOther\<close> is any other code.\<close>

datatype IndexerErrorCode = IE007 | IE008 | IE050 | IE051 | IE057 | IE058 | IEOther string

text \<open>
  \<open>IndexerError code cause\<close> is \<^verbatim>\<open>indexerError(code, cause)\<close>, \<open>Error message\<close> is an
  \<^verbatim>\<open>Error\<close> that is not an \<^verbatim>\<open>IndexerError\<close>. A thrown value that is neither is
  \<open>ThrownNullish\<close> when it is \<^verbatim>\<open>null\<close> or \<^verbatim>\<open>undefined\<close>, on which reading a property
  throws a \<^verbatim>\<open>TypeError\<close>, and \<open>ThrownValue\<close> otherwise.
\<close>

datatype js_error =
    IndexerError IndexerErrorCode "string option"
  | Error string
  | ThrownNullish
  | ThrownValue

datatype 'a result = Return 'a | Throw js_error | Running

record FeeData =
  fee_gasPrice :: "int option"
  fee_maxFeePerGas :: "int option"
  fee_maxPriorityFeePerGas :: "int option"

record TransactionConfig =
  attempt :: int
  txType :: TransactionType
  gasBump :: int
  nonce :: int
  maxFeePerGas :: "int option"
  maxPriorityFeePerGas :: "int option"
  gasPrice :: "int option"
  gasLimit :: int

text \<open>The fields of a \<^verbatim>\<open>ContractTransaction\<close> that the manager reads.\<close>

record ContractTransaction =
  tx_hash :: string
  tx_nonce :: int
  tx_gasLimit :: int
  tx_gasPrice :: "int option"
  tx_maxFeePerGas :: "int option"
  tx_maxPriorityFeePerGas :: "int option"
  tx_value :: int
  tx_to :: "string option"
  tx_data :: string
  tx_chainId :: int
  tx_from :: string

record TransactionRequest =
  req_value :: int
  req_to :: "string option"
  req_data :: string
  req_chainId :: int
  req_from :: string
  req_nonce :: int
  req_gasPrice :: "int option"
  req_maxPriorityFeePerGas :: "int option"
  req_maxFeePerGas :: "int option"
  req_gasLimit :: int

record LogEntry =
  log_topics :: "string list"
  log_data :: string

record Receipt =
  status :: "int option"
  events :: "LogEntry list option"
  logs :: "LogEntry list"

datatype event =
    GetFeeData
  | Delay nat
  | EstimateGas
  | BuildTransaction int
  | SendTransaction TransactionRequest
  | WaitForTransaction string nat int
  | Call "TransactionRequest option"

subsection \<open>BigNumber arithmetic and strings\<close>

text \<open>\<^verbatim>\<open>BigNumber.div\<close> truncates towards zero.\<close>

definition bn_div :: "int \<Rightarrow> int \<Rightarrow> int" where
  "bn_div a b = sgn a * sgn b * (\<bar>a\<bar> div \<bar>b\<bar>)"

text \<open>
  \<^verbatim>\<open>BigNumber.toNumber\<close> throws when the value does not fit the 53 bits of a JavaScript
  number.
\<close>

definition toNumber :: "int \<Rightarrow> js_error + int" where
  "toNumber x = (if \<bar>x\<bar> < 2 ^ 53 then Inr x else Inl (Error ''overflow''))"

text \<open>\<^verbatim>\<open>BigNumber.from\<close> throws on \<^verbatim>\<open>undefined\<close>.\<close>

definition bn_from :: "int option \<Rightarrow> js_error + int" where
  "bn_from v = (case v of None \<Rightarrow> Inl (Error ''invalid BigNumber value'') | Some x \<Rightarrow> Inr x)"

text \<open>\<^verbatim>\<open>s.includes(sub)\<close>: \<open>sub\<close> occurs in \<open>s\<close>.\<close>

fun str_includes :: "string \<Rightarrow> string \<Rightarrow> bool" where
  "str_includes [] sub = (sub = [])"
| "str_includes (c # cs) sub = (prefix sub (c # cs) \<or> str_includes cs sub)"

text \<open>
  \<^verbatim>\<open>Math.ceil(n * 1.5)\<close> for an integer \<open>n\<close> below \<open>2 ^ 53\<close> in size. The product is a
  double: the exact value \<open>3 * n / 2\<close> rounded to the nearest double, a tie going to the
  double with the even mantissa. Below \<open>2 ^ 52\<close> every multiple of one half is a double and
  the product is exact; from \<open>2 ^ 52\<close> the doubles are the integers, from \<open>2 ^ 53\<close> the
  even integers. In terms of \<open>t = 3 * n\<close>, twice the product:
\<close>

definition padGasLimit :: "int \<Rightarrow> int" where
  "padGasLimit n =
     (let t = 3 * n in
      if \<bar>t\<bar> < 2 ^ 53 then (t + 1) div 2
      else if \<bar>t\<bar> < 2 ^ 54 then
        (if even t then t div 2
         else if even (t div 2) then t div 2 else t div 2 + 1)
      else
        (if t mod 4 = 0 \<or> t mod 4 = 1 then 2 * (t div 4)
         else if t mod 4 = 3 then 2 * (t div 4 + 1)
         else if even (t div 4) then 2 * (t div 4) else 2 * (t div 4 + 1)))"

text \<open>Prepending the events of a step to the events of what follows it.\<close>

definition emit :: "event list \<Rightarrow> event list \<times> 'a \<Rightarrow> event list \<times> 'a" where
  "emit evs r = (evs @ fst r, snd r)"

subsection \<open>The fee policy\<close>

text \<open>
  \<^verbatim>\<open>transactionType\<close>. The message of the error lists the three fields after the text
  given here.
\<close>

definition transactionType :: "FeeData \<Rightarrow> js_error + TransactionType" where
  "transactionType data =
     (if fee_maxPriorityFeePerGas data \<noteq> None \<and> fee_maxFeePerGas data \<noteq> None then Inr TWO
      else if fee_gasPrice data \<noteq> None then Inr ZERO
      else Inl (Error ''Network fee data failed validation''))"

text \<open>
  \<^verbatim>\<open>waitForGasPricesBelowThreshold\<close>. The first argument is
  \<^verbatim>\<open>adjustedBaseFeePerGasMax\<close>, the second the answers of \<^verbatim>\<open>getFeeData\<close> in the order of
  the calls. The counter \<^verbatim>\<open>attempt\<close> of the source only chooses between two log messages.
\<close>

fun waitForGasPricesBelowThreshold ::
  "int \<Rightarrow> (js_error + FeeData) list \<Rightarrow> event list \<times> FeeData result" where
  "waitForGasPricesBelowThreshold ceiling [] = ([], Running)"
| "waitForGasPricesBelowThreshold ceiling (Inl e # polls) = ([GetFeeData], Throw e)"
| "waitForGasPricesBelowThreshold ceiling (Inr feeData # polls) =
     (case transactionType feeData of
        Inl e \<Rightarrow> ([GetFeeData], Throw e)
      | Inr TWO \<Rightarrow>
          (case (fee_maxFeePerGas feeData, fee_maxPriorityFeePerGas feeData) of
             (Some maxFee, Some maxPriorityFee) \<Rightarrow>
               (case toNumber (bn_div (maxFee - maxPriorityFee) 2) of
                  Inl e \<Rightarrow> ([GetFeeData], Throw e)
                | Inr baseFeePerGas \<Rightarrow>
                    if baseFeePerGas \<ge> ceiling
                    then emit [GetFeeData, Delay 30000]
                           (waitForGasPricesBelowThreshold ceiling polls)
                    else ([GetFeeData], Return (feeData\<lparr>fee_gasPrice := None\<rparr>)))
           | _ \<Rightarrow> ([GetFeeData], Throw (Error ''Cannot read properties of null'')))
      | Inr ZERO \<Rightarrow>
          (case fee_gasPrice feeData of
             Some price \<Rightarrow>
               (case toNumber price of
                  Inl e \<Rightarrow> ([GetFeeData], Throw e)
                | Inr gasPriceNumber \<Rightarrow>
                    if gasPriceNumber \<ge> ceiling
                    then emit [GetFeeData, Delay 30000]
                           (waitForGasPricesBelowThreshold ceiling polls)
                    else ([GetFeeData], Return feeData))
           | None \<Rightarrow> ([GetFeeData], Throw (Error ''Cannot read properties of null''))))"

subsection \<open>The error classifier\<close>

text \<open>The three tests that \<^verbatim>\<open>updateTransactionConfig\<close> makes on the message of an error.\<close>

definition alreadyBroadcast :: "string \<Rightarrow> bool" where
  "alreadyBroadcast message =
     (str_includes message ''Transaction with the same hash was already imported'' \<or>
      str_includes message ''nonce has already been used'')"

definition nonceTooLow :: "string \<Rightarrow> bool" where
  "nonceTooLow message =
     str_includes message ''Transaction nonce is too low. Try incrementing the nonce.''"

definition feeTooLow :: "string \<Rightarrow> bool" where
  "feeTooLow message =
     (str_includes message ''Try increasing the fee'' \<or>
      str_includes message ''gas price supplied is too low'' \<or>
      str_includes message ''timeout exceeded'')"

text \<open>
  \<^verbatim>\<open>updateTransactionConfig\<close>. The source updates the object \<^verbatim>\<open>txConfig\<close> in place and
  returns it, or throws. The model returns the events, the object as the call leaves it, and
  the error thrown (\<open>None\<close> when the call returns the object). The first statement logs
  \<^verbatim>\<open>error.message\<close>: on a thrown \<^verbatim>\<open>null\<close> or \<^verbatim>\<open>undefined\<close> that read throws.
\<close>

definition updateTransactionConfig ::
  "TransactionConfig \<Rightarrow> js_error \<Rightarrow> event list \<times> TransactionConfig \<times> js_error option" where
  "updateTransactionConfig txConfig error =
     (case error of
        IndexerError code cause \<Rightarrow>
          if code = IE050 then
            ([], txConfig\<lparr>gasLimit := bn_div (gasLimit txConfig * gasBump txConfig) 1000,
                          nonce := nonce txConfig + 1,
                          attempt := attempt txConfig + 1\<rparr>, None)
          else if code = IE051 then ([], txConfig, Some error)
          else ([], txConfig\<lparr>attempt := attempt txConfig + 1\<rparr>, None)
      | Error message \<Rightarrow>
          if alreadyBroadcast message then
            ([Delay 30000], txConfig,
             Some (IndexerError IE058
               (Some ''Original transaction was not confirmed though it may have been successful'')))
          else if nonceTooLow message then
            ([], txConfig\<lparr>nonce := nonce txConfig + 1, attempt := attempt txConfig + 1\<rparr>, None)
          else if feeTooLow message then
            (if txType txConfig = ZERO then
               (case bn_from (gasPrice txConfig) of
                  Inl e \<Rightarrow> ([], txConfig, Some e)
                | Inr price \<Rightarrow>
                    ([], txConfig\<lparr>gasPrice := Some (bn_div (price * gasBump txConfig) 1000),
                                  attempt := attempt txConfig + 1\<rparr>, None))
             else
               (case bn_from (maxFeePerGas txConfig) of
                  Inl e \<Rightarrow> ([], txConfig, Some e)
                | Inr maxFee \<Rightarrow>
                    (case bn_from (maxPriorityFeePerGas txConfig) of
                       Inl e \<Rightarrow>
                         ([], txConfig\<lparr>maxFeePerGas :=
                                Some (bn_div (maxFee * gasBump txConfig) 1000)\<rparr>, Some e)
                     | Inr maxPriorityFee \<Rightarrow>
                         ([], txConfig\<lparr>maxFeePerGas :=
                                Some (bn_div (maxFee * gasBump txConfig) 1000),
                              maxPriorityFeePerGas :=
                                Some (bn_div (maxPriorityFee * gasBump txConfig) 1000),
                              attempt := attempt txConfig + 1\<rparr>, None))))
          else ([], txConfig\<lparr>attempt := attempt txConfig + 1\<rparr>, None)
      | ThrownNullish \<Rightarrow> ([], txConfig, Some (Error ''Cannot read properties of undefined''))
      | ThrownValue \<Rightarrow> ([], txConfig\<lparr>attempt := attempt txConfig + 1\<rparr>, None))"

subsection \<open>The revert diagnoser\<close>

text \<open>
  \<^verbatim>\<open>getRevertReason\<close>. Both \<^verbatim>\<open>ethereum.call\<close> and \<^verbatim>\<open>utils.toUtf8String\<close> run inside
  the \<^verbatim>\<open>try\<close>, and the handler reads only the property \<^verbatim>\<open>body\<close> of what was thrown. So
  each of the two returns \<open>Inl body\<close> when it throws, where \<open>body\<close> is \<open>None\<close> when the
  thrown value has no string \<^verbatim>\<open>body\<close>: then \<^verbatim>\<open>e.body.includes\<close> throws a
  \<^verbatim>\<open>TypeError\<close>.
\<close>

definition getRevertReason ::
  "(string \<Rightarrow> string option + string) \<Rightarrow> (TransactionRequest option \<Rightarrow> string option + string) \<Rightarrow>
   TransactionRequest option \<Rightarrow> event list \<times> (js_error + string)" where
  "getRevertReason toUtf8String call txRequest =
     (let handler = (\<lambda>body. case body of
              None \<Rightarrow> Inl (Error ''Cannot read properties of undefined'')
            | Some b \<Rightarrow> if str_includes b ''out of gas'' then Inr ''out of gas''
                        else Inl (IndexerError IE051 None))
      in ([Call txRequest],
          (case call txRequest of
             Inl body \<Rightarrow> handler body
           | Inr code \<Rightarrow>
               (case toUtf8String (''0x'' @ drop 138 code) of
                  Inl body \<Rightarrow> handler body
                | Inr revertReason \<Rightarrow> Inr revertReason))))"

subsection \<open>The submission loop\<close>

text \<open>The fields of the manager that \<^verbatim>\<open>executeTransaction\<close> reads.\<close>

record TransactionManager =
  maxTransactionAttempts :: int
  gasIncreaseTimeout :: int
  adjustedGasIncreaseFactor :: int
  adjustedBaseFeePerGasMax :: int

text \<open>
  What the environment answers during one pass through the loop: to
  \<^verbatim>\<open>wallet.sendTransaction\<close>, to \<^verbatim>\<open>ethereum.waitForTransaction\<close> (given the hash) and to
  \<^verbatim>\<open>ethereum.call\<close>.
\<close>

record Iteration =
  it_send :: "TransactionRequest \<Rightarrow> js_error + ContractTransaction"
  it_wait :: "string \<Rightarrow> js_error + Receipt"
  it_call :: "TransactionRequest option \<Rightarrow> string option + string"

datatype outcome = Confirmed Receipt | Paused | Unauthorized | Undefined

text \<open>
  Lines 106 to 123: on an attempt after the first, build the request from \<^verbatim>\<open>tx\<close> and
  \<^verbatim>\<open>txConfig\<close> and send it. The result is the new \<^verbatim>\<open>tx\<close>, the new \<^verbatim>\<open>txRequest\<close>, the
  events, and the error thrown by the wallet if any.
\<close>

definition resubmit ::
  "ContractTransaction \<Rightarrow> TransactionRequest option \<Rightarrow> TransactionConfig \<Rightarrow> Iteration \<Rightarrow>
   ContractTransaction \<times> TransactionRequest option \<times> event list \<times> js_error option" where
  "resubmit tx txRequest txConfig it =
     (if attempt txConfig > 1 then
        (let request = \<lparr>req_value = tx_value tx, req_to = tx_to tx, req_data = tx_data tx,
                        req_chainId = tx_chainId tx, req_from = tx_from tx,
                        req_nonce = nonce txConfig, req_gasPrice = gasPrice txConfig,
                        req_maxPriorityFeePerGas = maxPriorityFeePerGas txConfig,
                        req_maxFeePerGas = maxFeePerGas txConfig,
                        req_gasLimit = gasLimit txConfig\<rparr>
         in case it_send it request of
              Inl e \<Rightarrow> (tx, Some request, [SendTransaction request], Some e)
            | Inr tx' \<Rightarrow> (tx', Some request, [SendTransaction request], None))
      else (tx, txRequest, [], None))"

text \<open>Lines 133 to 144: the error thrown for a receipt whose status is 0.\<close>

definition revertError :: "string \<Rightarrow> js_error" where
  "revertError revertReason =
     (if revertReason = ''out of gas'' then IndexerError IE050 None
      else if revertReason = ''unknown'' then IndexerError IE051 None
      else IndexerError IE057 None)"

text \<open>
  The body of the \<^verbatim>\<open>try\<close>, lines 105 to 152: the new \<^verbatim>\<open>tx\<close> and \<^verbatim>\<open>txRequest\<close>, the
  events, and either the error that reaches the \<^verbatim>\<open>catch\<close> or the receipt.
\<close>

definition tryAttempt ::
  "(string \<Rightarrow> string option + string) \<Rightarrow> TransactionManager \<Rightarrow> ContractTransaction \<Rightarrow>
   TransactionRequest option \<Rightarrow> TransactionConfig \<Rightarrow> Iteration \<Rightarrow>
   ContractTransaction \<times> TransactionRequest option \<times> event list \<times> (js_error + Receipt)" where
  "tryAttempt toUtf8String mgr tx txRequest txConfig it =
     (case resubmit tx txRequest txConfig it of
        (tx1, txRequest1, evs1, Some e) \<Rightarrow> (tx1, txRequest1, evs1, Inl e)
      | (tx1, txRequest1, evs1, None) \<Rightarrow>
          (let evs2 = evs1 @ [WaitForTransaction (tx_hash tx1) 3 (gasIncreaseTimeout mgr)]
           in case it_wait it (tx_hash tx1) of
                Inl e \<Rightarrow> (tx1, txRequest1, evs2, Inl e)
              | Inr receipt \<Rightarrow>
                  if status receipt = Some 0 then
                    (case getRevertReason toUtf8String (it_call it) txRequest1 of
                       (evs3, Inl e) \<Rightarrow> (tx1, txRequest1, evs2 @ evs3, Inl e)
                     | (evs3, Inr revertReason) \<Rightarrow>
                         (tx1, txRequest1, evs2 @ evs3, Inl (revertError revertReason)))
                  else (tx1, txRequest1, evs2, Inr receipt)))"

text \<open>
  One pass through \<^verbatim>\<open>while (pending)\<close> after the test of the attempt limit: the
  \<^verbatim>\<open>try\<close> and its \<^verbatim>\<open>catch\<close>. \<open>Inl\<close> carries what the function leaves with (a receipt or
  an error that escapes), \<open>Inr\<close> the state for the next pass.
\<close>

definition loopBody ::
  "(string \<Rightarrow> string option + string) \<Rightarrow> TransactionManager \<Rightarrow> ContractTransaction \<Rightarrow>
   TransactionRequest option \<Rightarrow> TransactionConfig \<Rightarrow> Iteration \<Rightarrow>
   event list \<times> (outcome result + ContractTransaction \<times> TransactionRequest option \<times> TransactionConfig)"
  where
  "loopBody toUtf8String mgr tx txRequest txConfig it =
     (case tryAttempt toUtf8String mgr tx txRequest txConfig it of
        (tx1, txRequest1, evs, Inr receipt) \<Rightarrow> (evs, Inl (Return (Confirmed receipt)))
      | (tx1, txRequest1, evs, Inl e) \<Rightarrow>
          (case updateTransactionConfig txConfig e of
             (evs', txConfig', Some e') \<Rightarrow> (evs @ evs', Inl (Throw e'))
           | (evs', txConfig', None) \<Rightarrow> (evs @ evs', Inr (tx1, txRequest1, txConfig'))))"

text \<open>
  \<^verbatim>\<open>while (pending)\<close>, lines 93 to 159. When the loop is left at the attempt limit,
  \<^verbatim>\<open>output\<close> is still \<^verbatim>\<open>undefined\<close>.
\<close>

fun executeLoop ::
  "(string \<Rightarrow> string option + string) \<Rightarrow> TransactionManager \<Rightarrow> ContractTransaction \<Rightarrow>
   TransactionRequest option \<Rightarrow> TransactionConfig \<Rightarrow> Iteration list \<Rightarrow>
   event list \<times> outcome result" where
  "executeLoop toUtf8String mgr tx txRequest txConfig [] =
     (if maxTransactionAttempts mgr \<noteq> 0 \<and> attempt txConfig > maxTransactionAttempts mgr
      then ([Delay 30000], Return Undefined)
      else ([], Running))"
| "executeLoop toUtf8String mgr tx txRequest txConfig (it # its) =
     (if maxTransactionAttempts mgr \<noteq> 0 \<and> attempt txConfig > maxTransactionAttempts mgr
      then ([Delay 30000], Return Undefined)
      else
        (case loopBody toUtf8String mgr tx txRequest txConfig it of
           (evs, Inl r) \<Rightarrow> (evs, r)
         | (evs, Inr (tx', txRequest', txConfig')) \<Rightarrow>
             emit evs (executeLoop toUtf8String mgr tx' txRequest' txConfig' its)))"

text \<open>
  \<^verbatim>\<open>executeTransaction\<close>. \<open>paused\<close> and \<open>isOperator\<close> are the values read from the two
  \<^verbatim>\<open>Eventual\<close>s, \<open>polls\<close> the answers of \<^verbatim>\<open>getFeeData\<close>, \<open>gasEstimation\<close> and
  \<open>transaction\<close> the two callbacks, \<open>its\<close> the answers of the network in the loop.
\<close>

definition executeTransaction ::
  "(string \<Rightarrow> string option + string) \<Rightarrow> TransactionManager \<Rightarrow> bool \<Rightarrow> bool \<Rightarrow>
   (js_error + FeeData) list \<Rightarrow> js_error + int \<Rightarrow> (int \<Rightarrow> js_error + ContractTransaction) \<Rightarrow>
   Iteration list \<Rightarrow> event list \<times> outcome result" where
  "executeTransaction toUtf8String mgr paused isOperator polls gasEstimation transaction its =
     (if paused then ([], Return Paused)
      else if \<not> isOperator then ([], Return Unauthorized)
      else
        (case waitForGasPricesBelowThreshold (adjustedBaseFeePerGasMax mgr) polls of
           (evs, Throw e) \<Rightarrow> (evs, Throw e)
         | (evs, Running) \<Rightarrow> (evs, Running)
         | (evs, Return feeData) \<Rightarrow>
             (case gasEstimation of
                Inl e \<Rightarrow> (evs @ [EstimateGas], Throw e)
              | Inr estimate \<Rightarrow>
                  (case toNumber estimate of
                     Inl e \<Rightarrow> (evs @ [EstimateGas], Throw e)
                   | Inr n \<Rightarrow>
                       (let paddedGasLimit = padGasLimit n;
                            evs1 = evs @ [EstimateGas, BuildTransaction paddedGasLimit]
                        in case transaction paddedGasLimit of
                             Inl e \<Rightarrow> (evs1, Throw e)
                           | Inr tx \<Rightarrow>
                               (case transactionType feeData of
                                  Inl e \<Rightarrow> (evs1, Throw e)
                                | Inr ty \<Rightarrow>
                                    emit evs1
                                      (executeLoop toUtf8String mgr tx None
                                         \<lparr>attempt = 1, txType = ty,
                                          gasBump = adjustedGasIncreaseFactor mgr,
                                          nonce = tx_nonce tx,
                                          maxFeePerGas = tx_maxFeePerGas tx,
                                          maxPriorityFeePerGas = tx_maxPriorityFeePerGas tx,
                                          gasPrice = tx_gasPrice tx,
                                          gasLimit = tx_gasLimit tx\<rparr> its)))))))"

subsection \<open>The event extractor\<close>

text \<open>
  A value of a decoded event: a string, or anything else (a number, a \<^verbatim>\<open>BigNumber\<close>), on
  which \<^verbatim>\<open>toLocaleLowerCase\<close> is not a function. A decoded event lists its named fields.
\<close>

datatype js_value = JsString string | JsOther

type_synonym DecodedEvent = "(string \<times> js_value) list"

text \<open>The two methods of \<^verbatim>\<open>utils.Interface\<close> that \<^verbatim>\<open>findEvent\<close> calls.\<close>

record Interface =
  getEventTopic :: "string \<Rightarrow> js_error + string"
  decodeEventLog :: "string \<Rightarrow> string \<Rightarrow> string list \<Rightarrow> js_error + DecodedEvent"

text \<open>\<^verbatim>\<open>.map\<close> with the decoder: the first entry that fails to decode throws.\<close>

fun decodeAll :: "Interface \<Rightarrow> string \<Rightarrow> LogEntry list \<Rightarrow> js_error + DecodedEvent list" where
  "decodeAll iface eventType [] = Inr []"
| "decodeAll iface eventType (ev # evs) =
     (case decodeEventLog iface eventType (log_data ev) (log_topics ev) of
        Inl e \<Rightarrow> Inl e
      | Inr decoded \<Rightarrow>
          (case decodeAll iface eventType evs of
             Inl e \<Rightarrow> Inl e
           | Inr rest \<Rightarrow> Inr (decoded # rest)))"

text \<open>
  \<^verbatim>\<open>.find\<close> with the comparison of the field. Reading \<^verbatim>\<open>toLocaleLowerCase\<close> from a field
  that is absent, or calling it on a value that is not a string, throws a \<^verbatim>\<open>TypeError\<close>.
  The built-in \<^verbatim>\<open>String.prototype.toLocaleLowerCase\<close> follows Unicode and the locale of
  the host; it is the first argument, so nothing is assumed about it.
\<close>

fun findMatching ::
  "(string \<Rightarrow> string) \<Rightarrow> string \<Rightarrow> string \<Rightarrow> DecodedEvent list \<Rightarrow>
   js_error + DecodedEvent option" where
  "findMatching toLocaleLowerCase logKey logValue [] = Inr None"
| "findMatching toLocaleLowerCase logKey logValue (eventLogs # rest) =
     (case map_of eventLogs logKey of
        None \<Rightarrow> Inl (Error ''Cannot read properties of undefined'')
      | Some JsOther \<Rightarrow> Inl (Error ''toLocaleLowerCase is not a function'')
      | Some (JsString s) \<Rightarrow>
          if toLocaleLowerCase s = toLocaleLowerCase logValue then Inr (Some eventLogs)
          else findMatching toLocaleLowerCase logKey logValue rest)"

definition findEvent ::
  "(string \<Rightarrow> string) \<Rightarrow> string \<Rightarrow> Interface \<Rightarrow> string \<Rightarrow> string \<Rightarrow> Receipt \<Rightarrow>
   js_error + DecodedEvent option" where
  "findEvent toLocaleLowerCase eventType contractInterface logKey logValue receipt =
     (let evs = (case events receipt of Some es \<Rightarrow> es | None \<Rightarrow> logs receipt)
      in case getEventTopic contractInterface eventType of
           Inl e \<Rightarrow> Inl e
         | Inr expectedTopic \<Rightarrow>
             (case decodeAll contractInterface eventType
                     (filter (\<lambda>event. expectedTopic \<in> set (log_topics event)) evs) of
                Inl e \<Rightarrow> Inl e
              | Inr decoded \<Rightarrow> findMatching toLocaleLowerCase logKey logValue decoded))"

subsection \<open>The fee rule in the words of the specification\<close>

text \<open>
  The reference fee as the specification words it: for the Modern mechanism
  \<open>(maxFeePerGas - maxPriorityFeePerGas) / 2\<close>, for the Legacy mechanism \<open>gasPrice\<close>;
  none when the snapshot has neither mechanism. The division is the division of
  \<^verbatim>\<open>BigNumber\<close>.
\<close>

definition referenceFee_spec :: "FeeData \<Rightarrow> int option" where
  "referenceFee_spec fd =
     (case transactionType fd of
        Inl e \<Rightarrow> None
      | Inr TWO \<Rightarrow>
          (case (fee_maxFeePerGas fd, fee_maxPriorityFeePerGas fd) of
             (Some maxFee, Some maxPriorityFee) \<Rightarrow> Some (bn_div (maxFee - maxPriorityFee) 2)
           | _ \<Rightarrow> None)
      | Inr ZERO \<Rightarrow> fee_gasPrice fd)"

text \<open>
  The snapshot handed back once it is acceptable: for the Modern mechanism its \<open>gasPrice\<close>
  is forced absent.
\<close>

definition accepted_spec :: "FeeData \<Rightarrow> FeeData" where
  "accepted_spec fd = (if transactionType fd = Inr TWO then fd\<lparr>fee_gasPrice := None\<rparr> else fd)"

subsection \<open>The event extractor in the words of the specification\<close>

text \<open>
  The log entries of the receipt whose topics include the signature hash, and the test of the
  specification on a decoded event: its named field is a string that equals the given value
  when case is ignored, which is to say after \<open>toLocaleLowerCase\<close> on both sides.
\<close>

definition matchingEntries :: "string \<Rightarrow> Receipt \<Rightarrow> LogEntry list" where
  "matchingEntries topic receipt =
     filter (\<lambda>entry. topic \<in> set (log_topics entry))
       (case events receipt of Some es \<Rightarrow> es | None \<Rightarrow> logs receipt)"

definition fieldMatches_spec ::
  "(string \<Rightarrow> string) \<Rightarrow> string \<Rightarrow> string \<Rightarrow> DecodedEvent \<Rightarrow> bool" where
  "fieldMatches_spec toLocaleLowerCase logKey logValue decoded =
     (case map_of decoded logKey of
        Some (JsString s) \<Rightarrow> toLocaleLowerCase s = toLocaleLowerCase logValue
      | _ \<Rightarrow> False)"

subsection \<open>Inputs of the examples\<close>

definition legacyFee :: "int \<Rightarrow> FeeData" where
  "legacyFee price =
     \<lparr>fee_gasPrice = Some price, fee_maxFeePerGas = None, fee_maxPriorityFeePerGas = None\<rparr>"

definition modernFee :: "int \<Rightarrow> int \<Rightarrow> FeeData" where
  "modernFee maxFee priorityFee =
     \<lparr>fee_gasPrice = None, fee_maxFeePerGas = Some maxFee,
      fee_maxPriorityFeePerGas = Some priorityFee\<rparr>"

definition legacyConfig :: TransactionConfig where
  "legacyConfig =
     \<lparr>attempt = 1, txType = ZERO, gasBump = 1200, nonce = 7, maxFeePerGas = None,
      maxPriorityFeePerGas = None, gasPrice = Some 100, gasLimit = 150000\<rparr>"

definition modernConfig :: TransactionConfig where
  "modernConfig =
     \<lparr>attempt = 1, txType = TWO, gasBump = 1200, nonce = 7, maxFeePerGas = Some 200,
      maxPriorityFeePerGas = Some 10, gasPrice = None, gasLimit = 150000\<rparr>"

definition outcomeUnknown :: js_error where
  "outcomeUnknown =
     IndexerError IE058
       (Some ''Original transaction was not confirmed though it may have been successful'')"

definition exampleManager :: TransactionManager where
  "exampleManager =
     \<lparr>maxTransactionAttempts = 0, gasIncreaseTimeout = 240000,
      adjustedGasIncreaseFactor = 1200, adjustedBaseFeePerGasMax = 100\<rparr>"

definition limitedManager :: TransactionManager where
  "limitedManager = exampleManager\<lparr>maxTransactionAttempts := 2\<rparr>"

text \<open>What the builder callback returns for a gas limit.\<close>

definition exampleTx :: "int \<Rightarrow> ContractTransaction" where
  "exampleTx limit =
     \<lparr>tx_hash = ''0xaa'', tx_nonce = 7, tx_gasLimit = limit, tx_gasPrice = Some 50,
      tx_maxFeePerGas = None, tx_maxPriorityFeePerGas = None, tx_value = 0,
      tx_to = Some ''0xc0'', tx_data = ''0x'', tx_chainId = 1, tx_from = ''0xf0''\<rparr>"

text \<open>What the wallet returns for a request: the transaction with the fields of the request.\<close>

definition sentTx :: "string \<Rightarrow> TransactionRequest \<Rightarrow> ContractTransaction" where
  "sentTx h request =
     \<lparr>tx_hash = h, tx_nonce = req_nonce request, tx_gasLimit = req_gasLimit request,
      tx_gasPrice = req_gasPrice request, tx_maxFeePerGas = req_maxFeePerGas request,
      tx_maxPriorityFeePerGas = req_maxPriorityFeePerGas request, tx_value = req_value request,
      tx_to = req_to request, tx_data = req_data request, tx_chainId = req_chainId request,
      tx_from = req_from request\<rparr>"

text \<open>The request of the second attempt, after one fee bump from 50 to 60.\<close>

definition exampleRequest :: TransactionRequest where
  "exampleRequest =
     \<lparr>req_value = 0, req_to = Some ''0xc0'', req_data = ''0x'', req_chainId = 1,
      req_from = ''0xf0'', req_nonce = 7, req_gasPrice = Some 60,
      req_maxPriorityFeePerGas = None, req_maxFeePerGas = None, req_gasLimit = 150000\<rparr>"

definition retryConfig :: TransactionConfig where
  "retryConfig =
     \<lparr>attempt = 2, txType = ZERO, gasBump = 1200, nonce = 7, maxFeePerGas = None,
      maxPriorityFeePerGas = None, gasPrice = Some 60, gasLimit = 150000\<rparr>"

definition revertedReceipt :: Receipt where
  "revertedReceipt = \<lparr>status = Some 0, events = None, logs = []\<rparr>"

definition successReceipt :: Receipt where
  "successReceipt = \<lparr>status = Some 1, events = None, logs = []\<rparr>"

text \<open>
  The output of a replayed call: 138 characters, then the bytes of the text \<^verbatim>\<open>alloc\<close> in
  hexadecimal; and a decoder that knows this one text.
\<close>

definition revertCode :: string where
  "revertCode = ''0x'' @ replicate 136 (CHR ''0'') @ ''616c6c6f63''"

definition exampleUtf8 :: "string \<Rightarrow> string option + string" where
  "exampleUtf8 hex = (if hex = ''0x616c6c6f63'' then Inr ''alloc'' else Inl None)"

text \<open>A pass in which the wait for confirmations times out.\<close>

definition timeoutIteration :: Iteration where
  "timeoutIteration =
     \<lparr>it_send = (\<lambda>request. Inr (sentTx ''0xab'' request)),
      it_wait = (\<lambda>h. Inl (Error ''timeout exceeded'')),
      it_call = (\<lambda>request. Inl None)\<rparr>"

text \<open>
  A pass in which the receipt has status 0. The replayed call answers \<open>revertCode\<close> for a
  request and throws, with no \<^verbatim>\<open>body\<close>, when it is given no request.
\<close>

definition revertIteration :: Iteration where
  "revertIteration =
     \<lparr>it_send = (\<lambda>request. Inr (sentTx ''0xbb'' request)),
      it_wait = (\<lambda>h. Inr revertedReceipt),
      it_call = (\<lambda>request. case request of None \<Rightarrow> Inl None | Some r \<Rightarrow> Inr revertCode)\<rparr>"

text \<open>A pass in which the transaction is confirmed.\<close>

definition successIteration :: Iteration where
  "successIteration =
     \<lparr>it_send = (\<lambda>request. Inr (sentTx ''0xcc'' request)),
      it_wait = (\<lambda>h. Inr successReceipt),
      it_call = (\<lambda>request. Inl None)\<rparr>"

text \<open>
  A pass in which the receipt has status 0 and the replayed call throws an error whose
  \<^verbatim>\<open>body\<close> does not mention gas.
\<close>

definition undiagnosableIteration :: Iteration where
  "undiagnosableIteration =
     \<lparr>it_send = (\<lambda>request. Inr (sentTx ''0xbb'' request)),
      it_wait = (\<lambda>h. Inr revertedReceipt),
      it_call = (\<lambda>request. Inl (Some ''execution reverted''))\<rparr>"

text \<open>A pass in which the wallet refuses the request because its nonce was used.\<close>

definition duplicateIteration :: Iteration where
  "duplicateIteration =
     \<lparr>it_send = (\<lambda>request. Inl (Error ''nonce has already been used'')),
      it_wait = (\<lambda>h. Inr successReceipt),
      it_call = (\<lambda>request. Inl None)\<rparr>"

text \<open>
  An interface with one event, \<^verbatim>\<open>Transfer\<close>, and a receipt with three log entries, two of
  them of that event, with the field \<^verbatim>\<open>to\<close> equal to \<^verbatim>\<open>0xA\<close> and to \<^verbatim>\<open>0xB\<close>.
\<close>

definition exampleInterface :: Interface where
  "exampleInterface =
     \<lparr>getEventTopic = (\<lambda>name. if name = ''Transfer'' then Inr ''0xddf2''
                                else Inl (Error ''no matching event'')),
      decodeEventLog = (\<lambda>name data topics.
         if data = ''0x0a'' then Inr [(''to'', JsString ''0xA'')]
         else if data = ''0x0b'' then Inr [(''to'', JsString ''0xB'')]
         else Inl (Error ''data out-of-bounds''))\<rparr>"

definition exampleLogs :: "LogEntry list" where
  "exampleLogs =
     [\<lparr>log_topics = [''0xddf2''], log_data = ''0x0a''\<rparr>,
      \<lparr>log_topics = [''0x8c5b''], log_data = ''0x0c''\<rparr>,
      \<lparr>log_topics = [''0xddf2'', ''0x0001''], log_data = ''0x0b''\<rparr>]"

definition exampleReceipt :: Receipt where
  "exampleReceipt = \<lparr>status = Some 1, events = None, logs = exampleLogs\<rparr>"

text \<open>A receipt whose one entry of the event does not decode.\<close>

definition undecodableReceipt :: Receipt where
  "undecodableReceipt =
     \<lparr>status = Some 1, events = None,
      logs = [\<lparr>log_topics = [''0xddf2''], log_data = ''0x0c''\<rparr>]\<rparr>"

text \<open>
  Lower-casing of the letters A to Z, as \<^verbatim>\<open>toLocaleLowerCase\<close> does on these letters in a
  locale without special case mappings.
\<close>

definition asciiLowerChar :: "char \<Rightarrow> char" where
  "asciiLowerChar c =
     (case map_of (zip ''ABCDEFGHIJKLMNOPQRSTUVWXYZ'' ''abcdefghijklmnopqrstuvwxyz'') c of
        Some l \<Rightarrow> l
      | None \<Rightarrow> c)"

definition asciiLowerCase :: "string \<Rightarrow> string" where
  "asciiLowerCase s = map asciiLowerChar s"

section \<open>Properties\<close>

subsection \<open>Helper lemmas\<close>

lemma bn_div_nonneg: "0 \<le> a \<Longrightarrow> 0 < b \<Longrightarrow> bn_div a b = a div b"
  by (simp add: bn_div_def sgn_if)

text \<open>Where the product is exact the padding is the ceiling of \<open>3 * n / 2\<close>.\<close>

lemma padGasLimit_exact: "\<bar>3 * n\<bar> < 2 ^ 53 \<Longrightarrow> padGasLimit n = (3 * n + 1) div 2"
  by (simp add: padGasLimit_def)

text \<open>An odd estimate near \<open>2 ^ 53 / 3\<close>, where the product is rounded to an even integer.\<close>

lemma padGasLimit_rounded: "padGasLimit 3002399751580331 = 4503599627370496"
  by (simp add: padGasLimit_def)

lemma str_includes_sublist: "str_includes s sub = sublist sub s"
  by (induction s) (auto simp: sublist_Cons_right)

lemma wait_rejects:
  assumes "referenceFee_spec fd = Some r" and "\<bar>r\<bar> < 2 ^ 53" and "ceiling \<le> r"
  shows "waitForGasPricesBelowThreshold ceiling (Inr fd # polls) =
           emit [GetFeeData, Delay 30000] (waitForGasPricesBelowThreshold ceiling polls)"
  using assms
  by (auto simp: referenceFee_spec_def toNumber_def
           split: sum.splits TransactionType.splits option.splits)

lemma wait_accepts:
  assumes "referenceFee_spec fd = Some r" and "\<bar>r\<bar> < 2 ^ 53" and "r < ceiling"
  shows "waitForGasPricesBelowThreshold ceiling (Inr fd # polls) =
           ([GetFeeData], Return (accepted_spec fd))"
  using assms
  by (auto simp: referenceFee_spec_def accepted_spec_def toNumber_def
           split: sum.splits TransactionType.splits option.splits)

lemma transactionType_clear_gasPrice:
  "transactionType s = Inr TWO \<Longrightarrow> transactionType (s\<lparr>fee_gasPrice := None\<rparr>) = Inr TWO"
  by (auto simp: transactionType_def split: if_splits)

lemma wait_returned_type_snd:
  "snd (waitForGasPricesBelowThreshold ceiling polls) = Return fd \<Longrightarrow>
   \<exists>ty. transactionType fd = Inr ty"
proof (induction polls)
  case Nil
  then show ?case by simp
next
  case (Cons p polls)
  show ?case
  proof (cases p)
    case (Inl e)
    with Cons.prems show ?thesis by simp
  next
    case (Inr s)
    with Cons show ?thesis
      by (auto simp: emit_def transactionType_clear_gasPrice
               split: sum.splits TransactionType.splits option.splits if_splits)
  qed
qed

lemma wait_returned_type:
  "waitForGasPricesBelowThreshold ceiling polls = (evs, Return fd) \<Longrightarrow>
   \<exists>ty. transactionType fd = Inr ty"
  using wait_returned_type_snd [of ceiling polls fd] by simp

subsection \<open>The fee policy\<close>

text \<open>
  Claim C2, as amended. \<^verbatim>\<open>waitForGasPricesBelowThreshold\<close> returns the first polled
  snapshot whose reference fee is strictly below the ceiling, with \<open>gasPrice\<close> forced absent
  for the Modern mechanism; for every earlier snapshot, whose reference fee is at or above
  the ceiling, it has waited 30 seconds and polled again. The reference fee is
  \<open>(maxFeePerGas - maxPriorityFeePerGas) / 2\<close> for Modern and \<open>gasPrice\<close> for Legacy, and
  stays within the range of a JavaScript number, as \<^verbatim>\<open>toNumber\<close> requires.
\<close>

theorem awaitAcceptableFee_strictly_below:
  assumes "\<forall>s\<in>set pre. \<exists>q. referenceFee_spec s = Some q \<and> \<bar>q\<bar> < 2 ^ 53 \<and> ceiling \<le> q"
    and "referenceFee_spec fd = Some r" and "\<bar>r\<bar> < 2 ^ 53" and "r < ceiling"
  shows "waitForGasPricesBelowThreshold ceiling (map Inr pre @ Inr fd # rest) =
           (concat (map (\<lambda>s. [GetFeeData, Delay 30000]) pre) @ [GetFeeData],
            Return (accepted_spec fd))"
  using assms(1)
proof (induction pre)
  case Nil
  show ?case using wait_accepts [OF assms(2-4)] by simp
next
  case (Cons s pre)
  then obtain q where q: "referenceFee_spec s = Some q" "\<bar>q\<bar> < 2 ^ 53" "ceiling \<le> q"
    by auto
  have "waitForGasPricesBelowThreshold ceiling (map Inr (s # pre) @ Inr fd # rest) =
          emit [GetFeeData, Delay 30000]
            (waitForGasPricesBelowThreshold ceiling (map Inr pre @ Inr fd # rest))"
    using wait_rejects [OF q] by simp
  with Cons show ?case by (simp add: emit_def)
qed

text \<open>
  The example of the specification: ceiling 100 and the fees 150, 120, 90. The third poll is
  returned after exactly two waits.
\<close>

theorem awaitAcceptableFee_strictly_below_witness:
  "waitForGasPricesBelowThreshold 100 [Inr (legacyFee 150), Inr (legacyFee 120), Inr (legacyFee 90)] =
     ([GetFeeData, Delay 30000, GetFeeData, Delay 30000, GetFeeData], Return (legacyFee 90))"
proof -
  have pre: "\<forall>s\<in>set [legacyFee 150, legacyFee 120].
               \<exists>q. referenceFee_spec s = Some q \<and> \<bar>q\<bar> < 2 ^ 53 \<and> (100::int) \<le> q"
    by (simp add: referenceFee_spec_def legacyFee_def transactionType_def)
  have fd: "referenceFee_spec (legacyFee 90) = Some 90"
    by (simp add: referenceFee_spec_def legacyFee_def transactionType_def)
  have acc: "accepted_spec (legacyFee 90) = legacyFee 90"
    by (simp add: accepted_spec_def legacyFee_def transactionType_def)
  show ?thesis
    using awaitAcceptableFee_strictly_below [OF pre fd, of "[]"] by (simp add: acc)
qed

text \<open>
  Claim C2 as written fails: a snapshot whose reference fee equals the ceiling is not
  accepted. With ceiling 100, a Legacy snapshot at 100 and a Modern snapshot whose reference
  fee is \<open>(210 - 10) / 2 = 100\<close> are both waited out, and the snapshot at 90 is returned.
\<close>

theorem awaitAcceptableFee_equal_rejected:
  "referenceFee_spec (legacyFee 100) = Some 100 \<and>
   referenceFee_spec (modernFee 210 10) = Some 100 \<and>
   waitForGasPricesBelowThreshold 100
     [Inr (legacyFee 100), Inr (modernFee 210 10), Inr (legacyFee 90)] =
     ([GetFeeData, Delay 30000, GetFeeData, Delay 30000, GetFeeData], Return (legacyFee 90))"
  by (simp add: referenceFee_spec_def transactionType_def toNumber_def emit_def
                legacyFee_def modernFee_def bn_div_def)

text \<open>
  Claim C4. \<^verbatim>\<open>transactionType\<close> returns \<open>TWO\<close> (Modern) when both \<open>maxFeePerGas\<close> and
  \<open>maxPriorityFeePerGas\<close> are present, \<open>ZERO\<close> (Legacy) when \<open>gasPrice\<close> is present and the
  Modern pair is not complete, which covers a snapshot with only \<open>gasPrice\<close>, and throws the
  validation error when neither mechanism is populated.
\<close>

theorem transactionType_classifies:
  "(fee_maxFeePerGas fd \<noteq> None \<and> fee_maxPriorityFeePerGas fd \<noteq> None
      \<longrightarrow> transactionType fd = Inr TWO) \<and>
   (fee_gasPrice fd \<noteq> None \<and> (fee_maxFeePerGas fd = None \<or> fee_maxPriorityFeePerGas fd = None)
      \<longrightarrow> transactionType fd = Inr ZERO) \<and>
   (fee_gasPrice fd = None \<and> (fee_maxFeePerGas fd = None \<or> fee_maxPriorityFeePerGas fd = None)
      \<longrightarrow> transactionType fd = Inl (Error ''Network fee data failed validation''))"
  by (auto simp: transactionType_def)

theorem transactionType_classifies_witness:
  "transactionType (modernFee 210 10) = Inr TWO \<and>
   transactionType (legacyFee 90) = Inr ZERO \<and>
   transactionType \<lparr>fee_gasPrice = None, fee_maxFeePerGas = None,
                     fee_maxPriorityFeePerGas = None\<rparr> =
     Inl (Error ''Network fee data failed validation'')"
  using transactionType_classifies [of "modernFee 210 10"]
    transactionType_classifies [of "legacyFee 90"]
    transactionType_classifies [of "\<lparr>fee_gasPrice = None, fee_maxFeePerGas = None,
                                     fee_maxPriorityFeePerGas = None\<rparr>"]
  by (simp add: legacyFee_def modernFee_def)

subsection \<open>Evaluating the examples\<close>

lemmas example_defs = exampleManager_def limitedManager_def exampleTx_def sentTx_def
  exampleRequest_def retryConfig_def revertedReceipt_def successReceipt_def revertCode_def
  exampleUtf8_def timeoutIteration_def revertIteration_def successIteration_def
  duplicateIteration_def undiagnosableIteration_def legacyFee_def modernFee_def
  legacyConfig_def modernConfig_def

lemmas model_defs = executeTransaction_def loopBody_def tryAttempt_def resubmit_def
  getRevertReason_def updateTransactionConfig_def revertError_def transactionType_def
  toNumber_def bn_from_def bn_div_def emit_def alreadyBroadcast_def nonceTooLow_def
  feeTooLow_def padGasLimit_def Let_def

subsection \<open>The error classifier\<close>

text \<open>
  Claim C5. For an error whose message says that the same transaction hash was already
  imported or that the nonce has already been used, \<^verbatim>\<open>updateTransactionConfig\<close> leaves
  the config as it was (fees, nonce, gas limit and attempt counter), waits 30 seconds and
  throws IE058, "Original transaction was not confirmed though it may have been successful".
  In the loop the error leaves \<^verbatim>\<open>executeTransaction\<close>: there is no further attempt.
\<close>

theorem duplicate_broadcast_fatal:
  assumes "alreadyBroadcast msg"
  shows "updateTransactionConfig cfg (Error msg) =
           ([Delay 30000], cfg, Some (IndexerError IE058
             (Some ''Original transaction was not confirmed though it may have been successful''))) \<and>
         (\<not> (maxTransactionAttempts mgr \<noteq> 0 \<and> attempt cfg > maxTransactionAttempts mgr) \<longrightarrow>
          tryAttempt u mgr tx rq cfg it = (tx1, rq1, evs, Inl (Error msg)) \<longrightarrow>
          executeLoop u mgr tx rq cfg (it # its) =
            (evs @ [Delay 30000], Throw (IndexerError IE058
              (Some ''Original transaction was not confirmed though it may have been successful''))))"
  using assms by (auto simp: updateTransactionConfig_def loopBody_def)

theorem duplicate_broadcast_fatal_witness:
  "alreadyBroadcast ''nonce has already been used'' \<and>
   updateTransactionConfig retryConfig (Error ''nonce has already been used'') =
     ([Delay 30000], retryConfig, Some outcomeUnknown) \<and>
   executeLoop exampleUtf8 exampleManager (exampleTx 150000) None retryConfig
     [duplicateIteration, successIteration] =
     ([SendTransaction exampleRequest, Delay 30000], Throw outcomeUnknown)"
proof -
  have dup: "alreadyBroadcast ''nonce has already been used''"
    by (simp add: alreadyBroadcast_def)
  have limit: "\<not> (maxTransactionAttempts exampleManager \<noteq> 0 \<and>
                  attempt retryConfig > maxTransactionAttempts exampleManager)"
    by (simp add: exampleManager_def)
  have attempted: "tryAttempt exampleUtf8 exampleManager (exampleTx 150000) None retryConfig
               duplicateIteration =
             (exampleTx 150000, Some exampleRequest, [SendTransaction exampleRequest],
              Inl (Error ''nonce has already been used''))"
    by (simp add: tryAttempt_def resubmit_def duplicateIteration_def retryConfig_def
                  exampleTx_def exampleRequest_def Let_def)
  show ?thesis
    using dup limit attempted
      duplicate_broadcast_fatal [OF dup, of retryConfig exampleManager exampleUtf8
        "exampleTx 150000" None duplicateIteration "exampleTx 150000" "Some exampleRequest"
        "[SendTransaction exampleRequest]" "[successIteration]"]
    by (simp add: outcomeUnknown_def)
qed

text \<open>
  Claim C6. On a fee-too-low or timeout error the classifier replaces the fee field of the
  config it was given by \<open>value * gasBump / 1000\<close> in the integer division of
  \<^verbatim>\<open>BigNumber\<close> (\<open>bn_div\<close>, which is \<open>div\<close> on values that are not negative, lemma
  \<open>bn_div_nonneg\<close>): \<open>gasPrice\<close> for the Legacy mechanism, both \<open>maxFeePerGas\<close> and
  \<open>maxPriorityFeePerGas\<close>, by the same factor, for the Modern mechanism. The bump compounds:
  with factor 1200, a \<open>gasPrice\<close> of 100 is 120 after one such error and 144 after two.
\<close>

theorem fee_bump_compounds:
  assumes "\<not> alreadyBroadcast msg" and "\<not> nonceTooLow msg" and "feeTooLow msg"
  shows "(txType cfg = ZERO \<and> gasPrice cfg = Some v \<longrightarrow>
           updateTransactionConfig cfg (Error msg) =
             ([], cfg\<lparr>gasPrice := Some (bn_div (v * gasBump cfg) 1000),
                       attempt := attempt cfg + 1\<rparr>, None)) \<and>
         (txType cfg = TWO \<and> maxFeePerGas cfg = Some a \<and> maxPriorityFeePerGas cfg = Some b \<longrightarrow>
           updateTransactionConfig cfg (Error msg) =
             ([], cfg\<lparr>maxFeePerGas := Some (bn_div (a * gasBump cfg) 1000),
                       maxPriorityFeePerGas := Some (bn_div (b * gasBump cfg) 1000),
                       attempt := attempt cfg + 1\<rparr>, None)) \<and>
         (txType cfg = ZERO \<and> gasPrice cfg = Some 100 \<and> gasBump cfg = 1200 \<longrightarrow>
           gasPrice (fst (snd (updateTransactionConfig cfg (Error msg)))) = Some 120 \<and>
           gasPrice (fst (snd (updateTransactionConfig
             (fst (snd (updateTransactionConfig cfg (Error msg)))) (Error msg)))) = Some 144)"
  using assms by (auto simp: updateTransactionConfig_def bn_from_def bn_div_def)

theorem fee_bump_compounds_witness:
  "\<not> alreadyBroadcast ''timeout exceeded'' \<and> \<not> nonceTooLow ''timeout exceeded'' \<and>
   feeTooLow ''timeout exceeded'' \<and>
   updateTransactionConfig legacyConfig (Error ''timeout exceeded'') =
     ([], legacyConfig\<lparr>gasPrice := Some 120, attempt := 2\<rparr>, None) \<and>
   updateTransactionConfig (legacyConfig\<lparr>gasPrice := Some 120, attempt := 2\<rparr>)
       (Error ''timeout exceeded'') =
     ([], legacyConfig\<lparr>gasPrice := Some 144, attempt := 3\<rparr>, None) \<and>
   updateTransactionConfig modernConfig (Error ''timeout exceeded'') =
     ([], modernConfig\<lparr>maxFeePerGas := Some 240, maxPriorityFeePerGas := Some 12,
                        attempt := 2\<rparr>, None)"
proof -
  have h: "\<not> alreadyBroadcast ''timeout exceeded''" "\<not> nonceTooLow ''timeout exceeded''"
    "feeTooLow ''timeout exceeded''"
    by (simp_all add: alreadyBroadcast_def nonceTooLow_def feeTooLow_def)
  show ?thesis
    using h fee_bump_compounds [OF h, of legacyConfig 100 200 10]
      fee_bump_compounds [OF h, of "legacyConfig\<lparr>gasPrice := Some 120, attempt := 2\<rparr>" 120 200 10]
      fee_bump_compounds [OF h, of modernConfig 100 200 10]
    by (simp add: legacyConfig_def modernConfig_def bn_div_def)
qed

text \<open>
  Claim C7. On a nonce-too-low error the classifier adds exactly 1 to the nonce and 1 to the
  attempt counter and changes nothing else: \<open>gasPrice\<close>, \<open>maxFeePerGas\<close>,
  \<open>maxPriorityFeePerGas\<close>, \<open>gasLimit\<close>, the mechanism and the bump factor are as before.
\<close>

theorem nonce_too_low_frame:
  assumes "\<not> alreadyBroadcast msg" and "nonceTooLow msg"
  shows "\<exists>cfg'. updateTransactionConfig cfg (Error msg) = ([], cfg', None) \<and>
           cfg' = cfg\<lparr>nonce := nonce cfg + 1, attempt := attempt cfg + 1\<rparr> \<and>
           nonce cfg' = nonce cfg + 1 \<and> attempt cfg' = attempt cfg + 1 \<and>
           gasPrice cfg' = gasPrice cfg \<and> maxFeePerGas cfg' = maxFeePerGas cfg \<and>
           maxPriorityFeePerGas cfg' = maxPriorityFeePerGas cfg \<and>
           gasLimit cfg' = gasLimit cfg \<and> txType cfg' = txType cfg \<and>
           gasBump cfg' = gasBump cfg"
  using assms by (simp add: updateTransactionConfig_def)

theorem nonce_too_low_frame_witness:
  "\<not> alreadyBroadcast ''Transaction nonce is too low. Try incrementing the nonce.'' \<and>
   nonceTooLow ''Transaction nonce is too low. Try incrementing the nonce.'' \<and>
   updateTransactionConfig modernConfig
       (Error ''Transaction nonce is too low. Try incrementing the nonce.'') =
     ([], \<lparr>attempt = 2, txType = TWO, gasBump = 1200, nonce = 8, maxFeePerGas = Some 200,
           maxPriorityFeePerGas = Some 10, gasPrice = None, gasLimit = 150000\<rparr>, None)"
proof -
  have h: "\<not> alreadyBroadcast ''Transaction nonce is too low. Try incrementing the nonce.''"
    "nonceTooLow ''Transaction nonce is too low. Try incrementing the nonce.''"
    by (simp_all add: alreadyBroadcast_def nonceTooLow_def)
  show ?thesis
    using h nonce_too_low_frame [OF h, of modernConfig] by (auto simp: modernConfig_def)
qed

subsection \<open>The submission loop\<close>

text \<open>
  Claim C8. When the paused value reads true, \<^verbatim>\<open>executeTransaction\<close> returns
  \<^verbatim>\<open>'paused'\<close>, and when it reads false and the operator value reads false it returns
  \<^verbatim>\<open>'unauthorized'\<close>; in both cases no event is recorded: the fee policy, the gas
  estimator and the transaction builder are not called.
\<close>

theorem gating_short_circuits:
  "executeTransaction u mgr True isOperator polls gasEstimation transaction its =
     ([], Return Paused) \<and>
   executeTransaction u mgr False False polls gasEstimation transaction its =
     ([], Return Unauthorized)"
  by (simp add: executeTransaction_def)



text \<open>
  A whole run with limit 2 in which both attempts time out: nothing is thrown, the last event
  is the wait of 30 seconds, and the result is \<^verbatim>\<open>undefined\<close> although the environment
  would have confirmed a third attempt.
\<close>

lemma attempt_limit_run:
  "executeTransaction exampleUtf8 limitedManager False True [Inr (legacyFee 50)] (Inr 100000)
     (\<lambda>gasLimit. Inr (exampleTx gasLimit))
     [timeoutIteration, timeoutIteration, successIteration] =
     ([GetFeeData, EstimateGas, BuildTransaction 150000,
       WaitForTransaction ''0xaa'' 3 240000,
       SendTransaction exampleRequest, WaitForTransaction ''0xab'' 3 240000,
       Delay 30000],
      Return Undefined)"
  by (simp add: example_defs model_defs)

text \<open>
  Claim C1, as amended. For a receipt with failure status whose diagnosed revert reason is
  neither \<^verbatim>\<open>out of gas\<close> nor \<^verbatim>\<open>unknown\<close>, the attempt throws IE057 to the classifier;
  the classifier does not throw it again: it returns the config with only the attempt counter
  incremented, and the loop goes on with the next pass, on the same transaction, request and
  fees. No error leaves \<^verbatim>\<open>executeTransaction\<close> from this attempt. Of the errors of the
  engine's own kind that reach the classifier, IE051 (the revert that cannot be diagnosed)
  alone is thrown again, unchanged and with the config untouched, and it leaves the loop;
  under every other code the classifier returns.
\<close>

theorem other_revert_reason_is_retried:
  assumes limit: "\<not> (maxTransactionAttempts mgr \<noteq> 0 \<and> attempt cfg > maxTransactionAttempts mgr)"
    and sent: "resubmit tx rq cfg it = (tx1, rq1, evs1, None)"
    and receipt: "it_wait it (tx_hash tx1) = Inr receipt" "status receipt = Some 0"
    and reason: "getRevertReason u (it_call it) rq1 = (evs3, Inr reason)"
      "reason \<noteq> ''out of gas''" "reason \<noteq> ''unknown''"
  shows "tryAttempt u mgr tx rq cfg it =
           (tx1, rq1, evs1 @ [WaitForTransaction (tx_hash tx1) 3 (gasIncreaseTimeout mgr)] @ evs3,
            Inl (IndexerError IE057 None)) \<and>
         updateTransactionConfig cfg (IndexerError IE057 None) =
           ([], cfg\<lparr>attempt := attempt cfg + 1\<rparr>, None) \<and>
         executeLoop u mgr tx rq cfg (it # its) =
           emit (evs1 @ [WaitForTransaction (tx_hash tx1) 3 (gasIncreaseTimeout mgr)] @ evs3)
             (executeLoop u mgr tx1 rq1 (cfg\<lparr>attempt := attempt cfg + 1\<rparr>) its) \<and>
         updateTransactionConfig cfg' (IndexerError IE051 cause) =
           ([], cfg', Some (IndexerError IE051 cause)) \<and>
         (code \<noteq> IE051 \<longrightarrow>
            snd (snd (updateTransactionConfig cfg' (IndexerError code cause))) = None) \<and>
         (\<not> (maxTransactionAttempts mgr \<noteq> 0 \<and> attempt cfg' > maxTransactionAttempts mgr) \<longrightarrow>
          tryAttempt u mgr tx' rq' cfg' it' = (txSent, rqSent, evs', Inl (IndexerError IE051 cause)) \<longrightarrow>
          executeLoop u mgr tx' rq' cfg' (it' # its') = (evs', Throw (IndexerError IE051 cause)))"
proof -
  have t: "tryAttempt u mgr tx rq cfg it =
           (tx1, rq1, evs1 @ [WaitForTransaction (tx_hash tx1) 3 (gasIncreaseTimeout mgr)] @ evs3,
            Inl (IndexerError IE057 None))"
    using sent receipt reason by (simp add: tryAttempt_def revertError_def Let_def)
  have c: "updateTransactionConfig cfg (IndexerError IE057 None) =
           ([], cfg\<lparr>attempt := attempt cfg + 1\<rparr>, None)"
    by (simp add: updateTransactionConfig_def)
  have "loopBody u mgr tx rq cfg it =
          (evs1 @ [WaitForTransaction (tx_hash tx1) 3 (gasIncreaseTimeout mgr)] @ evs3,
           Inr (tx1, rq1, cfg\<lparr>attempt := attempt cfg + 1\<rparr>))"
    by (simp add: loopBody_def t c)
  with limit have l: "executeLoop u mgr tx rq cfg (it # its) =
      emit (evs1 @ [WaitForTransaction (tx_hash tx1) 3 (gasIncreaseTimeout mgr)] @ evs3)
        (executeLoop u mgr tx1 rq1 (cfg\<lparr>attempt := attempt cfg + 1\<rparr>) its)"
    by auto
  have r: "updateTransactionConfig cfg' (IndexerError IE051 cause) =
           ([], cfg', Some (IndexerError IE051 cause))"
    by (simp add: updateTransactionConfig_def)
  have o: "code \<noteq> IE051 \<longrightarrow>
           snd (snd (updateTransactionConfig cfg' (IndexerError code cause))) = None"
    by (simp add: updateTransactionConfig_def)
  have e: "\<not> (maxTransactionAttempts mgr \<noteq> 0 \<and> attempt cfg' > maxTransactionAttempts mgr) \<longrightarrow>
           tryAttempt u mgr tx' rq' cfg' it' = (txSent, rqSent, evs', Inl (IndexerError IE051 cause)) \<longrightarrow>
           executeLoop u mgr tx' rq' cfg' (it' # its') = (evs', Throw (IndexerError IE051 cause))"
    by (auto simp: loopBody_def r)
  from t c l r o e show ?thesis by blast
qed

theorem other_revert_reason_is_retried_witness:
  "tryAttempt exampleUtf8 exampleManager (exampleTx 150000) None retryConfig revertIteration =
     (sentTx ''0xbb'' exampleRequest, Some exampleRequest,
      [SendTransaction exampleRequest, WaitForTransaction ''0xbb'' 3 240000,
       Call (Some exampleRequest)],
      Inl (IndexerError IE057 None)) \<and>
   executeLoop exampleUtf8 exampleManager (exampleTx 150000) None retryConfig
     [revertIteration, successIteration] =
     ([SendTransaction exampleRequest, WaitForTransaction ''0xbb'' 3 240000,
       Call (Some exampleRequest),
       SendTransaction exampleRequest, WaitForTransaction ''0xcc'' 3 240000],
      Return (Confirmed successReceipt)) \<and>
   snd (snd (updateTransactionConfig retryConfig (IndexerError IE050 None))) = None \<and>
   executeLoop exampleUtf8 exampleManager (exampleTx 150000) None retryConfig
     [undiagnosableIteration, successIteration] =
     ([SendTransaction exampleRequest, WaitForTransaction ''0xbb'' 3 240000,
       Call (Some exampleRequest)],
      Throw (IndexerError IE051 None))"
proof -
  have limit: "\<not> (maxTransactionAttempts exampleManager \<noteq> 0 \<and>
                  attempt retryConfig > maxTransactionAttempts exampleManager)"
    by (simp add: exampleManager_def)
  have sent: "resubmit (exampleTx 150000) None retryConfig revertIteration =
                (sentTx ''0xbb'' exampleRequest, Some exampleRequest,
                 [SendTransaction exampleRequest], None)"
    by (simp add: resubmit_def example_defs Let_def)
  have receipt: "it_wait revertIteration (tx_hash (sentTx ''0xbb'' exampleRequest)) =
                   Inr revertedReceipt" "status revertedReceipt = Some 0"
    by (simp_all add: revertIteration_def revertedReceipt_def)
  have reason: "getRevertReason exampleUtf8 (it_call revertIteration) (Some exampleRequest) =
                  ([Call (Some exampleRequest)], Inr ''alloc'')"
    "''alloc'' \<noteq> ''out of gas''" "''alloc'' \<noteq> ''unknown''"
    by (simp_all add: getRevertReason_def revertIteration_def revertCode_def exampleUtf8_def)
  have next_pass: "executeLoop exampleUtf8 exampleManager (sentTx ''0xbb'' exampleRequest)
                     (Some exampleRequest) (retryConfig\<lparr>attempt := attempt retryConfig + 1\<rparr>)
                     [successIteration] =
                   ([SendTransaction exampleRequest, WaitForTransaction ''0xcc'' 3 240000],
                    Return (Confirmed successReceipt))"
    by (simp add: example_defs model_defs)
  have undiagnosable: "tryAttempt exampleUtf8 exampleManager (exampleTx 150000) None retryConfig
                         undiagnosableIteration =
                       (sentTx ''0xbb'' exampleRequest, Some exampleRequest,
                        [SendTransaction exampleRequest, WaitForTransaction ''0xbb'' 3 240000,
                         Call (Some exampleRequest)],
                        Inl (IndexerError IE051 None))"
    by (simp add: tryAttempt_def resubmit_def getRevertReason_def example_defs Let_def)
  have other: "IE050 \<noteq> IE051"
    by simp
  have hash: "tx_hash (sentTx ''0xbb'' exampleRequest) = ''0xbb''"
    by (simp add: sentTx_def)
  have timeout: "gasIncreaseTimeout exampleManager = 240000"
    by (simp add: exampleManager_def)
  note retried =
    other_revert_reason_is_retried [OF limit sent receipt reason,
      where its = "[successIteration]" and cfg' = retryConfig and code = IE050 and cause = None
        and tx' = "exampleTx 150000" and rq' = None and it' = undiagnosableIteration
        and txSent = "sentTx ''0xbb'' exampleRequest" and rqSent = "Some exampleRequest"
        and evs' = "[SendTransaction exampleRequest, WaitForTransaction ''0xbb'' 3 240000,
                     Call (Some exampleRequest)]"
        and its' = "[successIteration]"]
  have first: "tryAttempt exampleUtf8 exampleManager (exampleTx 150000) None retryConfig
                 revertIteration =
               (sentTx ''0xbb'' exampleRequest, Some exampleRequest,
                [SendTransaction exampleRequest, WaitForTransaction ''0xbb'' 3 240000,
                 Call (Some exampleRequest)],
                Inl (IndexerError IE057 None))"
    unfolding retried [THEN conjunct1] hash timeout by simp
  have run: "executeLoop exampleUtf8 exampleManager (exampleTx 150000) None retryConfig
               [revertIteration, successIteration] =
             ([SendTransaction exampleRequest, WaitForTransaction ''0xbb'' 3 240000,
               Call (Some exampleRequest),
               SendTransaction exampleRequest, WaitForTransaction ''0xcc'' 3 240000],
              Return (Confirmed successReceipt))"
    unfolding retried [THEN conjunct2, THEN conjunct2, THEN conjunct1] next_pass emit_def
      hash timeout
    by simp
  have kept: "snd (snd (updateTransactionConfig retryConfig (IndexerError IE050 None))) = None"
    using retried other by blast
  have escapes: "executeLoop exampleUtf8 exampleManager (exampleTx 150000) None retryConfig
                   [undiagnosableIteration, successIteration] =
                 ([SendTransaction exampleRequest, WaitForTransaction ''0xbb'' 3 240000,
                   Call (Some exampleRequest)],
                  Throw (IndexerError IE051 None))"
    using retried limit undiagnosable by blast
  from first run kept escapes show ?thesis by blast
qed

text \<open>
  Claim C1 as written fails. In this run the first attempt times out, the second is mined
  with status 0 and the replayed call yields the reason \<^verbatim>\<open>alloc\<close>, which is neither
  \<^verbatim>\<open>out of gas\<close> nor \<^verbatim>\<open>unknown\<close>. No error is raised: the request is sent a third time
  and \<^verbatim>\<open>executeTransaction\<close> returns the receipt of that third attempt.
\<close>

theorem other_revert_reason_retried_counterexample:
  "getRevertReason exampleUtf8 (it_call revertIteration) (Some exampleRequest) =
     ([Call (Some exampleRequest)], Inr ''alloc'') \<and>
   executeTransaction exampleUtf8 exampleManager False True [Inr (legacyFee 50)] (Inr 100000)
     (\<lambda>gasLimit. Inr (exampleTx gasLimit))
     [timeoutIteration, revertIteration, successIteration] =
     ([GetFeeData, EstimateGas, BuildTransaction 150000,
       WaitForTransaction ''0xaa'' 3 240000,
       SendTransaction exampleRequest, WaitForTransaction ''0xbb'' 3 240000,
       Call (Some exampleRequest),
       SendTransaction exampleRequest, WaitForTransaction ''0xcc'' 3 240000],
      Return (Confirmed successReceipt))"
  by (simp add: example_defs model_defs)

text \<open>The events of the first pass when its receipt has status 0.\<close>

lemma tryAttempt_first_revert:
  assumes "attempt cfg \<le> 1" and "it_wait it (tx_hash tx) = Inr receipt"
    and "status receipt = Some 0"
  shows "\<exists>e. tryAttempt u mgr tx None cfg it =
           (tx, None, [WaitForTransaction (tx_hash tx) 3 (gasIncreaseTimeout mgr), Call None],
            Inl e)"
  using assms
  by (auto simp: tryAttempt_def resubmit_def getRevertReason_def Let_def
           split: sum.splits option.splits)

lemma executeLoop_events_prefix:
  assumes "\<not> (maxTransactionAttempts mgr \<noteq> 0 \<and> attempt cfg > maxTransactionAttempts mgr)"
    and "tryAttempt u mgr tx rq cfg it = (tx1, rq1, evs, Inl e)"
  shows "\<exists>post r. executeLoop u mgr tx rq cfg (it # its) = (evs @ post, r)"
proof (cases "updateTransactionConfig cfg e")
  case (fields evs' cfg' thrown)
  then show ?thesis
    using assms by (cases thrown) (auto simp: loopBody_def emit_def)
qed

text \<open>
  Claim C10. When the receipt of the very first attempt has failure status, the revert
  diagnoser is called with \<^verbatim>\<open>txRequest\<close> still \<^verbatim>\<open>undefined\<close>: the request object is
  built only on attempts after the first. The call that is replayed is \<open>Call None\<close>; it does
  not carry the transaction that the builder sent, whose hash the engine has just waited on.
\<close>

theorem first_attempt_revert_diagnosed_without_request:
  assumes fee: "waitForGasPricesBelowThreshold (adjustedBaseFeePerGasMax mgr) polls =
                  (feeEvents, Return feeData)"
    and est: "gasEstimation = Inr estimate" "\<bar>estimate\<bar> < 2 ^ 53"
    and build: "transaction (padGasLimit estimate) = Inr tx"
    and limit: "maxTransactionAttempts mgr = 0 \<or> 1 \<le> maxTransactionAttempts mgr"
    and receipt: "it_wait it (tx_hash tx) = Inr receipt" "status receipt = Some 0"
  shows "\<exists>post r. executeTransaction u mgr False True polls gasEstimation transaction (it # its) =
           (feeEvents @ [EstimateGas, BuildTransaction (padGasLimit estimate),
                    WaitForTransaction (tx_hash tx) 3 (gasIncreaseTimeout mgr), Call None] @ post,
            r)"
proof -
  obtain ty where ty: "transactionType feeData = Inr ty"
    using wait_returned_type [OF fee] by blast
  define cfg where "cfg = \<lparr>attempt = 1, txType = ty, gasBump = adjustedGasIncreaseFactor mgr,
     nonce = tx_nonce tx, maxFeePerGas = tx_maxFeePerGas tx,
     maxPriorityFeePerGas = tx_maxPriorityFeePerGas tx, gasPrice = tx_gasPrice tx,
     gasLimit = tx_gasLimit tx\<rparr>"
  have a: "attempt cfg \<le> 1" by (simp add: cfg_def)
  obtain e where t: "tryAttempt u mgr tx None cfg it =
      (tx, None, [WaitForTransaction (tx_hash tx) 3 (gasIncreaseTimeout mgr), Call None], Inl e)"
    using tryAttempt_first_revert [OF a receipt] by blast
  have l: "\<not> (maxTransactionAttempts mgr \<noteq> 0 \<and> attempt cfg > maxTransactionAttempts mgr)"
    using limit by (auto simp: cfg_def)
  obtain post r where loop: "executeLoop u mgr tx None cfg (it # its) =
      ([WaitForTransaction (tx_hash tx) 3 (gasIncreaseTimeout mgr), Call None] @ post, r)"
    using executeLoop_events_prefix [OF l t] by blast
  have "executeTransaction u mgr False True polls gasEstimation transaction (it # its) =
          emit (feeEvents @ [EstimateGas, BuildTransaction (padGasLimit estimate)])
            (executeLoop u mgr tx None cfg (it # its))"
    using fee est build ty unfolding executeTransaction_def cfg_def
    by (simp add: toNumber_def Let_def)
  with loop show ?thesis by (simp add: emit_def)
qed

text \<open>
  An instance: the transaction of the first attempt, \<^verbatim>\<open>0xaa\<close>, is mined with
  status 0, and the replayed call is made with no request.
\<close>

theorem first_attempt_revert_diagnosed_without_request_witness:
  "\<exists>post r. executeTransaction exampleUtf8 exampleManager False True [Inr (legacyFee 50)]
       (Inr 100000) (\<lambda>gasLimit. Inr (exampleTx gasLimit)) [revertIteration] =
     ([GetFeeData] @ [EstimateGas, BuildTransaction 150000,
        WaitForTransaction ''0xaa'' 3 240000, Call None] @ post, r)"
proof -
  have fee: "waitForGasPricesBelowThreshold (adjustedBaseFeePerGasMax exampleManager)
               [Inr (legacyFee 50)] = ([GetFeeData], Return (legacyFee 50))"
    by (simp add: exampleManager_def legacyFee_def transactionType_def toNumber_def)
  have est: "(Inr 100000 :: js_error + int) = Inr 100000" "\<bar>100000 :: int\<bar> < 2 ^ 53"
    by simp_all
  have pad: "padGasLimit 100000 = 150000"
    by (simp add: padGasLimit_def)
  have build: "(\<lambda>gasLimit. Inr (exampleTx gasLimit) :: js_error + ContractTransaction)
                 (padGasLimit 100000) = Inr (exampleTx 150000)"
    by (simp add: pad)
  have limit: "maxTransactionAttempts exampleManager = 0 \<or>
               1 \<le> maxTransactionAttempts exampleManager"
    by (simp add: exampleManager_def)
  have receipt: "it_wait revertIteration (tx_hash (exampleTx 150000)) = Inr revertedReceipt"
    "status revertedReceipt = Some 0"
    by (simp_all add: revertIteration_def revertedReceipt_def)
  have hash: "tx_hash (exampleTx 150000) = ''0xaa''"
    by (simp add: exampleTx_def)
  have timeout: "gasIncreaseTimeout exampleManager = 240000"
    by (simp add: exampleManager_def)
  note inst = first_attempt_revert_diagnosed_without_request
    [where mgr = exampleManager and polls = "[Inr (legacyFee 50)]" and feeEvents = "[GetFeeData]"
       and feeData = "legacyFee 50" and gasEstimation = "Inr 100000" and estimate = 100000
       and transaction = "\<lambda>gasLimit. Inr (exampleTx gasLimit)" and tx = "exampleTx 150000"
       and it = revertIteration and receipt = revertedReceipt and u = exampleUtf8
       and its = "[]"]
  show ?thesis
    using inst fee est build limit receipt hash timeout pad by simp
qed

subsection \<open>The event extractor\<close>

lemma decodeAll_ok:
  "map (\<lambda>ev. decodeEventLog iface eventType (log_data ev) (log_topics ev)) evs = map Inr ds \<Longrightarrow>
   decodeAll iface eventType evs = Inr ds"
  by (induction evs arbitrary: ds) auto

lemma findMatching_find:
  "\<forall>d\<in>set ds. \<exists>s. map_of d logKey = Some (JsString s) \<Longrightarrow>
   findMatching lower logKey logValue ds = Inr (find (fieldMatches_spec lower logKey logValue) ds)"
  by (induction ds) (auto simp: fieldMatches_spec_def)

text \<open>
  Claim C9, as amended. For every receipt whose log entries with the signature hash of the
  event among their topics all decode, and whose decoded events each hold a string in the
  named field, \<^verbatim>\<open>findEvent\<close> keeps those entries, decodes each of them, and returns the
  first decoded event whose named field equals the given value after \<^verbatim>\<open>toLocaleLowerCase\<close>
  on both sides, whatever that built-in does; when no decoded event matches it returns
  \<^verbatim>\<open>undefined\<close> and throws nothing.
\<close>

theorem findEvent_first_match:
  assumes topic: "getEventTopic iface eventType = Inr topic"
    and decoded: "map (\<lambda>entry. decodeEventLog iface eventType (log_data entry) (log_topics entry))
                    (matchingEntries topic receipt) = map Inr ds"
    and fields: "\<forall>d\<in>set ds. \<exists>s. map_of d logKey = Some (JsString s)"
  shows "findEvent lower eventType iface logKey logValue receipt =
           Inr (find (fieldMatches_spec lower logKey logValue) ds) \<and>
         ((\<forall>d\<in>set ds. \<not> fieldMatches_spec lower logKey logValue d) \<longrightarrow>
            findEvent lower eventType iface logKey logValue receipt = Inr None)"
proof -
  have "decodeAll iface eventType (matchingEntries topic receipt) = Inr ds"
    using decoded by (rule decodeAll_ok)
  then have "findEvent lower eventType iface logKey logValue receipt =
               Inr (find (fieldMatches_spec lower logKey logValue) ds)"
    using topic findMatching_find [OF fields, of lower logValue]
    by (simp add: findEvent_def matchingEntries_def)
  then show ?thesis by (auto simp: find_None_iff)
qed

text \<open>
  The example of the specification: of three log entries two are of the event, with
  \<^verbatim>\<open>to\<close> equal to \<^verbatim>\<open>0xA\<close> and \<^verbatim>\<open>0xB\<close>. Asking for \<^verbatim>\<open>0xb\<close> returns the second, asking for
  \<^verbatim>\<open>0xC\<close> returns nothing.
\<close>

theorem findEvent_first_match_witness:
  "findEvent asciiLowerCase ''Transfer'' exampleInterface ''to'' ''0xb'' exampleReceipt =
     Inr (Some [(''to'', JsString ''0xB'')]) \<and>
   findEvent asciiLowerCase ''Transfer'' exampleInterface ''to'' ''0xC'' exampleReceipt = Inr None"
proof -
  let ?ds = "[[(''to'', JsString ''0xA'')], [(''to'', JsString ''0xB'')]]"
  have topic: "getEventTopic exampleInterface ''Transfer'' = Inr ''0xddf2''"
    by (simp add: exampleInterface_def)
  have decoded: "map (\<lambda>entry. decodeEventLog exampleInterface ''Transfer'' (log_data entry)
                        (log_topics entry)) (matchingEntries ''0xddf2'' exampleReceipt) =
                 map Inr ?ds"
    by (simp add: exampleInterface_def matchingEntries_def exampleLogs_def exampleReceipt_def)
  have fields: "\<forall>d\<in>set ?ds. \<exists>s. map_of d ''to'' = Some (JsString s)"
    by simp
  have none: "\<forall>d\<in>set ?ds. \<not> fieldMatches_spec asciiLowerCase ''to'' ''0xC'' d"
    by (simp add: fieldMatches_spec_def asciiLowerCase_def asciiLowerChar_def)
  show ?thesis
    using findEvent_first_match [OF topic decoded fields, of asciiLowerCase "''0xb''"]
      findEvent_first_match [OF topic decoded fields, of asciiLowerCase "''0xC''"] none
    by (simp add: fieldMatches_spec_def asciiLowerCase_def asciiLowerChar_def)
qed

text \<open>
  Claim C9 as written fails: not for every receipt does \<^verbatim>\<open>findEvent\<close> return without an
  error when nothing matches. On the receipt of the example, asking for the field
  \<^verbatim>\<open>recipient\<close>, which no decoded event has, throws a \<^verbatim>\<open>TypeError\<close> at the first decoded
  event; and on a receipt whose one entry of the event does not decode, the error of the
  decoder leaves \<^verbatim>\<open>findEvent\<close>.
\<close>

theorem findEvent_raises_counterexample:
  "findEvent asciiLowerCase ''Transfer'' exampleInterface ''recipient'' ''0xb'' exampleReceipt =
     Inl (Error ''Cannot read properties of undefined'') \<and>
   findEvent asciiLowerCase ''Transfer'' exampleInterface ''to'' ''0xb'' undecodableReceipt =
     Inl (Error ''data out-of-bounds'')"
  by (simp add: findEvent_def exampleInterface_def exampleReceipt_def exampleLogs_def
                undecodableReceipt_def)

end
